theory Spec2Isabelle
  imports Complex_Main "HOL-Library.Char_ord" "HOL-Library.List_Lexorder"
begin

section \<open>Python strings\<close>

text \<open>
  A Python \<open>str\<close> is modelled as a \<open>string\<close>, a list of 8-bit characters read as the
  code points U+0000 to U+00FF. The helpers below are the string methods the source
  calls, each with Python's behaviour on these strings.

  \<open>lower\<close> is \<open>str.lower()\<close> and \<open>upper\<close> is \<open>str.upper()\<close>. In this range the cased letters
  are the ASCII ones and the letters U+00C0 to U+00DE (without U+00D7) with their lower
  case 32 code points above; the upper case of U+00DF is the two letters \<open>SS\<close>. The upper
  case of U+00B5 and of U+00FF lies beyond U+00FF, at U+039C and U+0178: \<open>upper\<close> leaves
  these two characters unchanged. The source searches the upper-cased text for ASCII
  words only, and either form of the two characters answers these searches alike.
\<close>

definition ascii_uppercase :: string where
  "ascii_uppercase = ''ABCDEFGHIJKLMNOPQRSTUVWXYZ''"

definition ascii_lowercase :: string where
  "ascii_lowercase = ''abcdefghijklmnopqrstuvwxyz''"

definition latin1_uppercase :: string where
  "latin1_uppercase =
     [CHR 0xC0, CHR 0xC1, CHR 0xC2, CHR 0xC3, CHR 0xC4, CHR 0xC5, CHR 0xC6, CHR 0xC7,
      CHR 0xC8, CHR 0xC9, CHR 0xCA, CHR 0xCB, CHR 0xCC, CHR 0xCD, CHR 0xCE, CHR 0xCF,
      CHR 0xD0, CHR 0xD1, CHR 0xD2, CHR 0xD3, CHR 0xD4, CHR 0xD5, CHR 0xD6, CHR 0xD8,
      CHR 0xD9, CHR 0xDA, CHR 0xDB, CHR 0xDC, CHR 0xDD, CHR 0xDE]"

definition latin1_lowercase :: string where
  "latin1_lowercase =
     [CHR 0xE0, CHR 0xE1, CHR 0xE2, CHR 0xE3, CHR 0xE4, CHR 0xE5, CHR 0xE6, CHR 0xE7,
      CHR 0xE8, CHR 0xE9, CHR 0xEA, CHR 0xEB, CHR 0xEC, CHR 0xED, CHR 0xEE, CHR 0xEF,
      CHR 0xF0, CHR 0xF1, CHR 0xF2, CHR 0xF3, CHR 0xF4, CHR 0xF5, CHR 0xF6, CHR 0xF8,
      CHR 0xF9, CHR 0xFA, CHR 0xFB, CHR 0xFC, CHR 0xFD, CHR 0xFE]"

definition lower_char :: "char \<Rightarrow> char" where
  "lower_char c =
     (case map_of (zip (ascii_uppercase @ latin1_uppercase) (ascii_lowercase @ latin1_lowercase)) c
      of Some d \<Rightarrow> d | None \<Rightarrow> c)"

definition upper_char :: "char \<Rightarrow> string" where
  "upper_char c =
     (if c = CHR 0xDF then ''SS''
      else (case map_of (zip (ascii_lowercase @ latin1_lowercase)
                             (ascii_uppercase @ latin1_uppercase)) c
            of Some d \<Rightarrow> [d] | None \<Rightarrow> [c]))"

definition lower :: "string \<Rightarrow> string" where
  "lower s = map lower_char s"

definition upper :: "string \<Rightarrow> string" where
  "upper s = concat (map upper_char s)"

definition startswith :: "string \<Rightarrow> string \<Rightarrow> bool" where
  "startswith s p = (take (length p) s = p)"

definition endswith :: "string \<Rightarrow> string \<Rightarrow> bool" where
  "endswith s p = (length p \<le> length s \<and> drop (length s - length p) s = p)"

text \<open>\<open>contains sub s\<close> is Python's \<open>sub in s\<close> on strings.\<close>

fun contains :: "string \<Rightarrow> string \<Rightarrow> bool" where
  "contains sub [] = (sub = [])"
| "contains sub (c # cs) = (startswith (c # cs) sub \<or> contains sub cs)"

text \<open>\<open>remove_char c s\<close> is \<open>s.replace(c, "")\<close> for a one-character \<open>c\<close>.\<close>

definition remove_char :: "char \<Rightarrow> string \<Rightarrow> string" where
  "remove_char c s = filter (\<lambda>x. x \<noteq> c) s"

text \<open>
  \<open>split_on c s\<close> is \<open>s.split(c)\<close> for a one-character separator: the list is never
  empty, and a string with n separators gives n + 1 pieces.
\<close>

fun split_on :: "char \<Rightarrow> string \<Rightarrow> string list" where
  "split_on c [] = [[]]"
| "split_on c (x # xs) =
     (if x = c then [] # split_on c xs
      else (case split_on c xs of [] \<Rightarrow> [[x]] | p # ps \<Rightarrow> (x # p) # ps))"

text \<open>\<open>strip_chars cs s\<close> is \<open>s.strip(cs)\<close>; \<open>strip\<close> is \<open>s.strip()\<close>.\<close>

definition strip_chars :: "char set \<Rightarrow> string \<Rightarrow> string" where
  "strip_chars cs s = rev (dropWhile (\<lambda>c. c \<in> cs) (rev (dropWhile (\<lambda>c. c \<in> cs) s)))"

definition is_space :: "char \<Rightarrow> bool" where
  "is_space c = (of_char c \<in> {9, 10, 11, 12, 13, 28, 29, 30, 31, 32, 133, 160 :: nat})"

definition strip :: "string \<Rightarrow> string" where
  "strip s = rev (dropWhile is_space (rev (dropWhile is_space s)))"

text \<open>
  \<open>dedupe_first xs\<close> is \<open>list(dict.fromkeys(xs))\<close>, the keys of a dictionary or a \<open>Counter\<close>
  filled from \<open>xs\<close>: each element once, in the order of first occurrence.
\<close>

definition dedupe_first :: "'a list \<Rightarrow> 'a list" where
  "dedupe_first xs = rev (remdups (rev xs))"

text \<open>\<open>str_of_nat\<close> and \<open>str_of_int\<close> are \<open>str(n)\<close>, as an f-string prints an integer.\<close>

fun str_of_nat :: "nat \<Rightarrow> string" where
  "str_of_nat n =
     (if n < 10 then [''0123456789'' ! n] else str_of_nat (n div 10) @ [''0123456789'' ! (n mod 10)])"

definition str_of_int :: "int \<Rightarrow> string" where
  "str_of_int i = (if i < 0 then CHR ''-'' # str_of_nat (nat (- i)) else str_of_nat (nat i))"

section \<open>Python values and dictionaries\<close>

text \<open>
  The documents the stages pass on are dictionaries. A dictionary with string keys is an
  association list; \<open>dict_get d k\<close> is \<open>d.get(k)\<close> with \<open>None\<close> for a missing key.
  A float is read as the real number it denotes.
\<close>

datatype pyval =
    PNone
  | PBool bool
  | PInt int
  | PFloat real
  | PStr string
  | PList "pyval list"
  | PDict "(string \<times> pyval) list"

type_synonym pydict = "(string \<times> pyval) list"

definition dict_get :: "pydict \<Rightarrow> string \<Rightarrow> pyval option" where
  "dict_get d k = map_of d k"

datatype py_error = AttributeError | TypeError | IndexError

section \<open>Findings\<close>

text \<open>
  A finding is the \<open>leaks\<close> document of \<open>make_leak_doc\<close>, enriched in place by the later
  stages. Each field holds what the stages read with \<open>finding.get(key, default)\<close>: a
  missing string field is the empty string, a missing dictionary the empty dictionary,
  the missing \<open>reuse_count\<close> is 0.
\<close>

record osint_context =
  labels :: "string list"
  metadata :: pydict

record ml_report =
  predicted_severity :: string
  confidence_score :: int
  model_used :: string
  top_features :: "(string \<times> real) list"

record risk_assessment =
  score :: int
  severity :: string
  factors :: "string list"
  ml_analysis :: "ml_report option"

record finding =
  url :: string
  source_file :: string
  excerpt :: string
  match :: string
  rule_id :: string
  category :: string
  secret :: string
  reuse_count :: int
  validation :: pydict
  osint :: "osint_context option"
  risk :: "risk_assessment option"

section \<open>Risk rules (app/risks/rules.py)\<close>

definition CRITICAL_cats :: "string list" where
  "CRITICAL_cats = [''AWS'', ''GCP'', ''AZURE'', ''SLACK'', ''STRIPE'', ''PRIVATEKEY'']"

definition HIGH_cats :: "string list" where
  "HIGH_cats = [''DBPASSWORD'', ''APIKEY'', ''JWT'', ''ACCESSKEY'', ''SECRET'']"

text \<open>
  \<open>validation.get("validity", "unknown").lower()\<close>: the default for a missing key, and an
  AttributeError when the stored value is not a string.
\<close>

definition validity_of :: "pydict \<Rightarrow> py_error + string" where
  "validity_of v =
     (case dict_get v ''validity'' of
        None \<Rightarrow> Inr (lower ''unknown'')
      | Some (PStr s) \<Rightarrow> Inr (lower s)
      | Some _ \<Rightarrow> Inl AttributeError)"

text \<open>Rule 1: the points and the factor the validity adds.\<close>

definition validity_bonus :: "string \<Rightarrow> int \<times> string list" where
  "validity_bonus validity =
     (if validity = ''active'' \<or> validity = ''confirmed''
        then (60, [''Secret is confirmed ACTIVE/VALID''])
      else if validity = ''plausible''
        then (30, [''Secret structure is PLAUSIBLE''])
      else (0, []))"

text \<open>Rule 2: the category tier.\<close>

definition category_bonus :: "string \<Rightarrow> int \<times> string list" where
  "category_bonus cat =
     (let cat_norm = remove_char CHR '' '' (remove_char CHR ''_'' cat) in
      if list_ex (\<lambda>c. contains c cat_norm) CRITICAL_cats
        then (25, [''Critical Secret Type: '' @ cat])
      else if list_ex (\<lambda>c. contains c cat_norm) HIGH_cats
        then (15, [''High-Value Secret Type: '' @ cat])
      else (5, []))"

text \<open>Rule 3: the exposure context.\<close>

definition osint_bonus :: "string list \<Rightarrow> int \<times> string list" where
  "osint_bonus ls =
     (let (s1, f1) = (if ''PUBLICLY_EXPOSED_ARTIFACT'' \<in> set ls
                        then (10, [''Found in public JS file (External Exposure)''])
                        else (0, []));
          (s2, f2) = (if ''EXPOSED_ADMIN_PATH'' \<in> set ls
                        then (10, [''Found in Admin/Config path''])
                        else (0, []));
          (s3, f3) = (if ''HIGH_RISK_DOMAIN_CONTEXT'' \<in> set ls
                        then (5, [''Associated with high-risk domain''])
                        else (0, []))
      in (s1 + s2 + s3, f1 @ f2 @ f3))"

definition severity_of_score :: "real \<Rightarrow> string" where
  "severity_of_score s = (if s \<ge> 80 then ''High'' else if s \<ge> 40 then ''Medium'' else ''Low'')"

definition osint_labels :: "finding \<Rightarrow> string list" where
  "osint_labels f = (case osint f of None \<Rightarrow> [] | Some oc \<Rightarrow> labels oc)"

definition calculate_base_score :: "finding \<Rightarrow> py_error + (int \<times> string \<times> string list)" where
  "calculate_base_score f =
     (let cat = upper (category f) in
      case validity_of (validation f) of
        Inl e \<Rightarrow> Inl e
      | Inr validity \<Rightarrow>
          (let (s1, f1) = validity_bonus validity;
               (s2, f2) = category_bonus cat;
               (s3, f3) = osint_bonus (osint_labels f);
               total = s1 + s2 + s3;
               capped = (if contains ''generic'' (lower cat) \<and> validity \<noteq> ''confirmed''
                           then min total 40 else total);
               final = min 100 (max 10 capped)
           in Inr (final, severity_of_score (real_of_int final), f1 @ f2 @ f3)))"

section \<open>Risk fusion (app/risks/engine.py)\<close>

text \<open>
  The classifier is scikit-learn's; \<open>predict\<close> stands for \<open>RiskClassifier.predict\<close> and
  gives the weighted score (a float), the predicted class and the top features.
  \<open>py_int\<close> is \<open>int(x)\<close> on a float: truncation towards zero.
\<close>

type_synonym classifier = "finding \<Rightarrow> real \<times> string \<times> (string \<times> real) list"

definition py_int :: "real \<Rightarrow> int" where
  "py_int x = (if x \<ge> 0 then \<lfloor>x\<rfloor> else \<lceil>x\<rceil>)"

definition final_score :: "int \<Rightarrow> real \<Rightarrow> real" where
  "final_score rule_score ml_score =
     max (real_of_int rule_score) (min (real_of_int (rule_score + 20)) ml_score)"

definition assess_finding :: "classifier \<Rightarrow> finding \<Rightarrow> py_error + finding" where
  "assess_finding predict f =
     (case calculate_base_score f of
        Inl e \<Rightarrow> Inl e
      | Inr (rule_score, rule_severity, rule_factors) \<Rightarrow>
          (let (ml_score, ml_severity, ml_top_features) = predict f;
               fs = final_score rule_score ml_score;
               final_severity = severity_of_score fs;
               facs = (if fs > real_of_int rule_score
                         then rule_factors @
                           [''ML Analysis refined risk score (+''
                              @ str_of_int (py_int (fs - real_of_int rule_score)) @ '')'']
                         else rule_factors)
           in Inr (f\<lparr>risk := Some \<lparr>score = py_int fs, severity = final_severity,
                       factors = facs,
                       ml_analysis = Some \<lparr>predicted_severity = ml_severity,
                                   confidence_score = py_int ml_score,
                                   model_used = ''RandomForestClassifier (Ensemble)'',
                                   top_features = ml_top_features\<rparr>\<rparr>\<rparr>)))"

text \<open>\<open>assess_risk\<close> runs over the list; an exception on one finding aborts the call.\<close>

fun assess_risk :: "classifier \<Rightarrow> finding list \<Rightarrow> py_error + finding list" where
  "assess_risk predict [] = Inr []"
| "assess_risk predict (f # fs) =
     (case assess_finding predict f of
        Inl e \<Rightarrow> Inl e
      | Inr f' \<Rightarrow> (case assess_risk predict fs of Inl e \<Rightarrow> Inl e | Inr fs' \<Rightarrow> Inr (f' # fs')))"

section \<open>Validation analyzer (app/utils/validation_analyzer.py)\<close>

text \<open>
  The analyzer calls three libraries: \<open>base64.b64decode\<close>, \<open>json.loads\<close> on the UTF-8
  decoding of the bytes, and the DNS resolver. They are fields of \<open>analyzer_env\<close>;
  \<open>None\<close> stands for a raised exception. Bytes are characters.

  The floating-point operations of the platform are fields of \<open>analyzer_env\<close> as well, a
  float being read as the real number it denotes: \<open>float_div a b\<close> is \<open>a / b\<close> on two
  integers, \<open>math_log x b\<close> is \<open>math.log(x, b)\<close>, \<open>float_mul\<close> and \<open>float_sub\<close> are \<open>*\<close> and
  \<open>-\<close> on floats, \<open>round2 x\<close> is \<open>round(x, 2)\<close>. Comparisons of floats are exact.
\<close>

datatype rrtype = MX | A

datatype dns_outcome =
    Answer bool
  | NoAnswer
  | NXDOMAIN
  | Timeout
  | OtherFailure

record analyzer_env =
  b64decode :: "string \<Rightarrow> string option"
  json_loads :: "string \<Rightarrow> pyval option"
  DNS_AVAILABLE :: bool
  resolve :: "string \<Rightarrow> rrtype \<Rightarrow> dns_outcome"
  float_div :: "nat \<Rightarrow> nat \<Rightarrow> real"
  math_log :: "real \<Rightarrow> real \<Rightarrow> real"
  float_mul :: "real \<Rightarrow> real \<Rightarrow> real"
  float_sub :: "real \<Rightarrow> real \<Rightarrow> real"
  round2 :: "real \<Rightarrow> real"

record validation_result =
  label :: string
  confidence :: int
  reason :: string
  result_metadata :: pydict

definition MIN_LENGTHS :: "(string \<times> nat) list" where
  "MIN_LENGTHS = [(''jwt'', 32), (''api_key'', 16), (''oauth'', 20), (''private_key'', 64),
                  (''generic'', 10)]"

definition result :: "string \<Rightarrow> int \<Rightarrow> string \<Rightarrow> pydict \<Rightarrow> validation_result" where
  "result l c r m = \<lparr>label = l, confidence = min 100 (max 0 c), reason = r, result_metadata = m\<rparr>"

text \<open>Truthiness of a Python value, as \<open>not x\<close> tests it.\<close>

fun truthy :: "pyval \<Rightarrow> bool" where
  "truthy PNone = False"
| "truthy (PBool b) = b"
| "truthy (PInt i) = (i \<noteq> 0)"
| "truthy (PFloat x) = (x \<noteq> 0)"
| "truthy (PStr s) = (s \<noteq> [])"
| "truthy (PList xs) = (xs \<noteq> [])"
| "truthy (PDict d) = (d \<noteq> [])"

text \<open>
  \<open>_shannon_entropy\<close>: the loop over \<open>Counter(data).values()\<close>, which come in the order in
  which the characters first occur, with the float operations of the platform. On the
  empty string the source returns the integer 0.
\<close>

definition shannon_entropy :: "analyzer_env \<Rightarrow> string \<Rightarrow> real" where
  "shannon_entropy env data =
     (if data = [] then 0
      else fold (\<lambda>count entropy.
                   (let p = float_div env count (length data)
                    in float_sub env entropy (float_mul env p (math_log env p 2))))
             (map (count_list data) (dedupe_first data)) 0)"

text \<open>The value stored for an entropy: the integer 0 of the empty string, else the float.\<close>

definition entropy_val :: "string \<Rightarrow> real \<Rightarrow> pyval" where
  "entropy_val data x = (if data = [] then PInt 0 else PFloat x)"

definition count_char :: "char \<Rightarrow> string \<Rightarrow> nat" where
  "count_char c s = length (filter (\<lambda>x. x = c) s)"

definition looks_like_jwt :: "string \<Rightarrow> bool" where
  "looks_like_jwt text = (count_char CHR ''.'' text = 2 \<and> length text > 30)"

definition safe_b64_decode_json :: "analyzer_env \<Rightarrow> string \<Rightarrow> pyval" where
  "safe_b64_decode_json env s =
     (let s1 = map (\<lambda>c. if c = CHR ''_'' then CHR ''/'' else c)
                 (map (\<lambda>c. if c = CHR ''-'' then CHR ''+'' else c) s);
          s2 = s1 @ replicate (4 - length s1 mod 4) CHR ''=''
      in case b64decode env s2 of
           None \<Rightarrow> PNone
         | Some decoded \<Rightarrow> (case json_loads env decoded of None \<Rightarrow> PNone | Some v \<Rightarrow> v))"

definition std_claims :: "string list" where
  "std_claims = [''iss'', ''sub'', ''aud'', ''exp'', ''iat'', ''nbf'', ''jti'']"

fun is_dict :: "pyval \<Rightarrow> bool" where
  "is_dict (PDict d) = True"
| "is_dict v = False"

fun is_list :: "pyval \<Rightarrow> bool" where
  "is_list (PList d) = True"
| "is_list v = False"

fun dict_keys :: "pyval \<Rightarrow> string list" where
  "dict_keys (PDict d) = map fst d"
| "dict_keys v = []"

definition validate_jwt :: "analyzer_env \<Rightarrow> string \<Rightarrow> validation_result" where
  "validate_jwt env token =
     (case split_on CHR ''.'' token of
        [header_b64, payload_b64, signature_b64] \<Rightarrow>
          if header_b64 = [] \<or> payload_b64 = []
            then result ''invalid'' 100 ''Malformatted JWT: Empty header or payload'' []
          else
            (let header = safe_b64_decode_json env header_b64 in
             if \<not> truthy header \<or> \<not> is_dict header
               then result ''invalid'' 100 ''JWT Header is not a valid JSON object'' []
             else
               (let payload = safe_b64_decode_json env payload_b64 in
                if \<not> truthy payload \<or> \<not> is_dict payload
                  then result ''invalid'' 100 ''JWT Payload is not a valid JSON object'' []
                else
                  (let detected_claims = filter (\<lambda>k. k \<in> set std_claims) (dict_keys payload);
                       c1 = (if detected_claims \<noteq> []
                               then 85 + int (length detected_claims) * 2 else 85);
                       sig_entropy = shannon_entropy env signature_b64;
                       c2 = (if sig_entropy < 3 then c1 - 20 else c1);
                       c3 = (if c2 > 95 then 95 else c2);
                       md = [(''header'', header), (''claims'', payload)]
                            @ (if detected_claims \<noteq> []
                                 then [(''standard_claims'', PList (map PStr detected_claims))]
                                 else [])
                            @ [(''signature_entropy'', entropy_val signature_b64 sig_entropy)]
                   in result ''valid'' c3 ''Structurally valid JWT'' md)))
      | _ \<Rightarrow> result ''invalid'' 100 ''Malformatted JWT: Incorrect number of segments'' [])"

text \<open>
  In \<open>_validate_email\<close> every exception of a lookup is caught by the handlers inside the
  outer \<open>try\<close> (\<open>except (NoAnswer, NXDOMAIN)\<close>, then \<open>except Exception: pass\<close>), so control
  always reaches the \<open>invalid\<close>/90 return below them; the outer handler with its
  \<open>likely\<close>/40 result has no exception left to catch.
\<close>

definition validate_email :: "analyzer_env \<Rightarrow> string \<Rightarrow> validation_result" where
  "validate_email env email =
     (case split_on CHR ''@'' email of
        [local_part, domain] \<Rightarrow>
          if \<not> DNS_AVAILABLE env
            then result ''likely'' 50 ''Email structure valid (DNS check skipped)''
                   [(''domain'', PStr domain)]
          else
            (let no_records = result ''invalid'' 90
                   (''Domain '' @ domain @ '' has no MX or A records'') [(''domain'', PStr domain)]
             in case resolve env domain MX of
                  Answer mx \<Rightarrow>
                    if mx then result ''likely'' 90 (''Valid MX records for '' @ domain)
                                 [(''domain'', PStr domain), (''mx_found'', PBool True)]
                    else no_records
                | NoAnswer \<Rightarrow>
                    (case resolve env domain A of
                       Answer a \<Rightarrow>
                         if a then result ''likely'' 70 (''No MX but valid A record for '' @ domain)
                                     [(''domain'', PStr domain), (''a_found'', PBool True)]
                         else no_records
                     | _ \<Rightarrow> no_records)
                | NXDOMAIN \<Rightarrow>
                    (case resolve env domain A of
                       Answer a \<Rightarrow>
                         if a then result ''likely'' 70 (''No MX but valid A record for '' @ domain)
                                     [(''domain'', PStr domain), (''a_found'', PBool True)]
                         else no_records
                     | _ \<Rightarrow> no_records)
                | _ \<Rightarrow> no_records)
      | _ \<Rightarrow> result ''invalid'' 100 ''Invalid email format'' [])"

text \<open>
  \<open>base64_shaped\<close> is \<open>re.match(r'^[A-Za-z0-9+/=]+$', token)\<close>; the \<open>$\<close> also matches before
  one final newline.
\<close>

definition b64_char :: "char \<Rightarrow> bool" where
  "b64_char c =
     (let n = of_char c :: nat in
      (65 \<le> n \<and> n \<le> 90) \<or> (97 \<le> n \<and> n \<le> 122) \<or> (48 \<le> n \<and> n \<le> 57)
      \<or> c = CHR ''+'' \<or> c = CHR ''/'' \<or> c = CHR ''='')"

definition base64_shaped :: "string \<Rightarrow> bool" where
  "base64_shaped token =
     (let body = (if token \<noteq> [] \<and> last token = CHR 0x0A then butlast token else token)
      in body \<noteq> [] \<and> list_all b64_char body)"

text \<open>
  \<open>printable_ratio\<close> is the value of \<open>round(ratio, 2)\<close>: the ratio is a float when the
  decoded bytes are not empty, and the integer 0 otherwise.
\<close>

definition printable_ratio :: "analyzer_env \<Rightarrow> string \<Rightarrow> pyval" where
  "printable_ratio env decoded =
     (let printable = length (filter (\<lambda>c. 32 \<le> (of_char c :: nat) \<and> (of_char c :: nat) \<le> 126)
                                decoded)
      in if length decoded > 0
           then PFloat (round2 env (float_div env printable (length decoded)))
         else PInt 0)"

text \<open>The three entropy rules that end \<open>_validate_generic_token\<close>.\<close>

definition entropy_verdict :: "nat \<Rightarrow> real \<Rightarrow> pydict \<Rightarrow> validation_result" where
  "entropy_verdict len entropy md =
     (if entropy < 5 / 2 \<and> len > 20
        then result ''invalid'' 80 ''Entropy too low for secret material'' md
      else if entropy > 9 / 2
        then result ''likely'' 70 ''High entropy string'' md
      else result ''likely'' 50 ''Plausible length and chars'' md)"

definition min_length_for :: "string \<Rightarrow> nat" where
  "min_length_for lbl = (case map_of MIN_LENGTHS lbl of Some n \<Rightarrow> n | None \<Rightarrow> 10)"

definition validate_generic_token :: "analyzer_env \<Rightarrow> string \<Rightarrow> string \<Rightarrow> validation_result" where
  "validate_generic_token env token lbl =
     (let len = length token;
          entropy = shannon_entropy env token;
          md = [(''length'', PInt (int len)),
                (''entropy'', entropy_val token (round2 env entropy))];
          min_len = min_length_for lbl
      in if len < min_len
           then result ''invalid'' 90
                  (''Token too short (len='' @ str_of_nat len @ '', min=''
                     @ str_of_nat min_len @ '')'') md
         else if base64_shaped token \<and> len mod 4 = 0
           then (case b64decode env token of
                   None \<Rightarrow> entropy_verdict len entropy md
                 | Some decoded \<Rightarrow>
                     if CHR ''{'' \<in> set decoded \<and> CHR ''}'' \<in> set decoded
                        \<and> (case json_loads env decoded of
                              None \<Rightarrow> False | Some obj \<Rightarrow> is_dict obj \<or> is_list obj)
                       then result ''valid'' 80 ''Base64 decoded to valid JSON''
                              (md @ [(''decoded_content'', PStr ''json'')])
                     else entropy_verdict len entropy
                            (md @ [(''decoded_printable_ratio'', printable_ratio env decoded)]))
         else entropy_verdict len entropy md)"

text \<open>
  \<open>email_shape\<close> is \<open>re.match(r"[^@]+@[^@]+\.[^@]+", s)\<close>: a non-empty run without \<open>@\<close>, an
  \<open>@\<close>, and then, before any further \<open>@\<close>, a dot with a character on each side.
\<close>

definition email_shape :: "string \<Rightarrow> bool" where
  "email_shape s =
     (let local_part = takeWhile (\<lambda>c. c \<noteq> CHR ''@'') s;
          rest = dropWhile (\<lambda>c. c \<noteq> CHR ''@'') s
      in local_part \<noteq> [] \<and> rest \<noteq> []
         \<and> (let r = takeWhile (\<lambda>c. c \<noteq> CHR ''@'') (tl rest)
            in list_ex (\<lambda>i. r ! i = CHR ''.'') [1 ..< length r - 1]))"

definition analyze :: "analyzer_env \<Rightarrow> string \<Rightarrow> string \<Rightarrow> validation_result" where
  "analyze env secret_candidate secret_type =
     (if secret_candidate = [] then result ''invalid'' 0 ''Empty secret'' []
      else
        (let ty = lower secret_type in
         if contains ''jwt'' ty \<or> looks_like_jwt secret_candidate
           then validate_jwt env secret_candidate
         else if (contains ''email'' ty \<or> contains ''@'' secret_candidate)
                 \<and> email_shape secret_candidate
           then validate_email env secret_candidate
         else validate_generic_token env secret_candidate ty))"

section \<open>Validation stage (app/blueprints/tasks/validation.py)\<close>

text \<open>The dictionary \<open>_result\<close> returns, which the stage stores as the leak's \<open>validation\<close>.\<close>

definition result_dict :: "validation_result \<Rightarrow> pydict" where
  "result_dict r = [(''label'', PStr (label r)), (''confidence'', PInt (confidence r)),
                    (''reason'', PStr (reason r)), (''metadata'', PDict (result_metadata r))]"

definition infer_type :: "string \<Rightarrow> string" where
  "infer_type rid =
     (if contains ''jwt'' rid then ''jwt''
      else if contains ''email'' rid \<or> contains ''mail'' rid then ''email''
      else if contains ''key'' rid \<or> contains ''secret'' rid then ''api_key''
      else ''generic'')"

definition validate_leak :: "analyzer_env \<Rightarrow> finding \<Rightarrow> finding" where
  "validate_leak env leak =
     leak\<lparr>validation := result_dict (analyze env (match leak) (infer_type (lower (rule_id leak))))\<rparr>"

section \<open>OSINT rules (app/osint/rules.py)\<close>

text \<open>
  \<open>OSINT_DATA\<close> is loaded from dataset files at startup; the rules read it as a global.
  Here it is an argument. A header dictionary is a list of key and value strings.
\<close>

record osint_data =
  sensitive_files :: "string set"
  disposable_domains :: "string set"
  free_domains :: "string set"
  breached_org_domains :: "string set"
  admin_paths :: "string set"
  cloud_fingerprints :: "(string \<times> string list) list"

definition check_sensitive_file :: "osint_data \<Rightarrow> string \<Rightarrow> bool" where
  "check_sensitive_file d path =
     (path \<noteq> [] \<and> lower (last (split_on CHR ''/'' path)) \<in> sensitive_files d)"

definition check_admin_path :: "osint_data \<Rightarrow> string \<Rightarrow> bool" where
  "check_admin_path d path =
     (path \<noteq> [] \<and>
      (let cleaned_path = strip_chars {CHR ''/''} path;
           parts = map lower (filter (\<lambda>p. p \<noteq> []) (split_on CHR ''/'' cleaned_path))
       in list_ex (\<lambda>p. p \<in> admin_paths d) parts))"

text \<open>The result is the pair of \<open>domain_type\<close> and \<open>domain\<close>, or \<open>None\<close>.\<close>

definition check_email_domain :: "osint_data \<Rightarrow> string \<Rightarrow> (string \<times> string) option" where
  "check_email_domain d email =
     (if email = [] \<or> \<not> contains ''@'' email then None
      else
        (case split_on CHR ''@'' email of
           local_part # domain_part # others \<Rightarrow>
             (let domain = strip (lower domain_part) in
              if domain \<in> disposable_domains d then Some (''disposable'', domain)
              else if domain \<in> breached_org_domains d then Some (''breached_org'', domain)
              else if domain \<in> free_domains d then Some (''free'', domain)
              else None)
         | _ \<Rightarrow> None))"

definition detect_cloud_provider ::
  "osint_data \<Rightarrow> (string \<times> string) list \<Rightarrow> string list \<Rightarrow> string list \<Rightarrow> string list" where
  "detect_cloud_provider d hdrs urls js_files =
     (let search_space =
            concat (map (\<lambda>(k, v). [lower k, lower v]) hdrs)
            @ map lower urls
            @ map lower (filter (\<lambda>j. startswith j ''http'') js_files);
          providers =
            filter (\<lambda>(provider, indicators).
                      list_ex (\<lambda>indicator. list_ex (\<lambda>entry. contains indicator entry) search_space)
                        indicators)
              (cloud_fingerprints d)
      in sort (remdups (map fst providers)))"

section \<open>OSINT correlator (app/osint/correlator.py)\<close>

record crawl_context =
  headers :: "(string \<times> string) list"
  urls :: "string list"
  js_files :: "string list"

text \<open>\<open>join\<close> is \<open>sep.join(xs)\<close>.\<close>

fun join :: "string \<Rightarrow> string list \<Rightarrow> string" where
  "join sep [] = []"
| "join sep [x] = x"
| "join sep (x # y # ys) = x @ sep @ join sep (y # ys)"

text \<open>The email candidate of step 3; the empty string stands for no candidate.\<close>

definition email_candidate :: "finding \<Rightarrow> string" where
  "email_candidate f =
     (if category f = ''EMAIL'' then (if secret f \<noteq> [] then secret f else excerpt f)
      else if contains ''@'' (excerpt f)
              \<and> contains ''.'' (last (split_on CHR ''@'' (excerpt f)))
        then strip (excerpt f)
      else [])"

text \<open>
  One pass of the loop body. \<open>label_if c l\<close> is the conditional \<open>labels.append(l)\<close>;
  \<open>unset s\<close> is \<open>not metadata.get("exposure_surface")\<close>. The four metadata slots start as
  \<open>None\<close> and the ones still \<open>None\<close> at the end are dropped.
\<close>

definition label_if :: "bool \<Rightarrow> string \<Rightarrow> string list" where
  "label_if c l = (if c then [l] else [])"

definition unset :: "string option \<Rightarrow> bool" where
  "unset s = (s = None \<or> s = Some [])"

definition correlate_finding :: "osint_data \<Rightarrow> string list \<Rightarrow> finding \<Rightarrow> finding" where
  "correlate_finding d global_providers f =
     (let f_url = url f; f_source = source_file f;
          sens = (check_sensitive_file d f_url \<or> check_sensitive_file d f_source);
          labels1 = label_if sens ''KNOWN_SENSITIVE_FILE'';
          surface1 = (if sens then Some ''sensitive_file'' else None);
          adm = (check_admin_path d f_url \<or> check_admin_path d f_source);
          labels2 = labels1 @ label_if adm ''EXPOSED_ADMIN_PATH'';
          surface2 = (if adm \<and> unset surface1 then Some ''admin_path'' else surface1);
          cand = email_candidate f;
          domain_ctx = (if cand \<noteq> [] then check_email_domain d cand else None);
          high_risk = (case domain_ctx of
                         Some (domain_type, domain) \<Rightarrow>
                           domain_type \<in> {''disposable'', ''breached_org''}
                       | None \<Rightarrow> False);
          labels3 = labels2 @ label_if high_risk ''HIGH_RISK_DOMAIN_CONTEXT'';
          js = (f_source \<noteq> [] \<and> endswith f_source ''.js'');
          labels4 = labels3 @ label_if js ''PUBLICLY_EXPOSED_ARTIFACT'';
          surface4 = (if js \<and> unset surface2 then Some ''external_js'' else surface2);
          cloud = (global_providers \<noteq> [] \<and> \<not> unset surface4);
          labels5 = labels4 @ label_if cloud ''INFRASTRUCTURE_FINGERPRINT_EXPOSED'';
          labels6 = labels5 @ label_if (reuse_count f > 1) ''SECRET_REUSE_DETECTED'';
          labels7 = (if labels6 = [] then [''NO_OSINT_SIGNAL''] else labels6);
          md = (case domain_ctx of
                  Some (domain_type, domain) \<Rightarrow>
                    [(''domain'', PStr domain), (''domain_type'', PStr domain_type)]
                | None \<Rightarrow> [])
               @ (if cloud then [(''cloud_provider'', PStr (join '', '' global_providers))] else [])
               @ (case surface4 of Some s \<Rightarrow> [(''exposure_surface'', PStr s)] | None \<Rightarrow> [])
      in f\<lparr>osint := Some \<lparr>labels = dedupe_first labels7, metadata = md\<rparr>\<rparr>)"

definition correlate :: "osint_data \<Rightarrow> finding list \<Rightarrow> crawl_context \<Rightarrow> finding list" where
  "correlate d findings ctx =
     (if findings = [] then []
      else
        (let global_providers = detect_cloud_provider d (headers ctx) (urls ctx) (js_files ctx)
         in map (correlate_finding d global_providers) findings))"

section \<open>Example inputs\<close>

text \<open>
  A finding as the pipeline holds it after the validation stage: the \<open>validation\<close> field
  is the analyzer's result for a structurally valid JWT.
\<close>

definition ex_finding :: finding where
  "ex_finding = \<lparr>url = ''http://t.example/app'', source_file = ''main.js'', excerpt = ''x'',
     match = ''x'', rule_id = ''jwt_token'', category = ''jwt'', secret = [], reuse_count = 0,
     validation = [(''label'', PStr ''valid''), (''confidence'', PInt 85),
                   (''reason'', PStr ''Structurally valid JWT''), (''metadata'', PDict [])],
     osint = None, risk = None\<rparr>"

definition ex_predict :: classifier where
  "ex_predict = (\<lambda>_. (55 / 2, ''Low'', []))"

text \<open>
  Library environments for the analyzer. In \<open>ex_env\<close> the resolver library is missing
  and nothing decodes; in \<open>ex_dns_timeout_env\<close> the resolver is there and every lookup
  times out; in \<open>ex_json_env\<close> the libraries have their values at the one token
  \<open>eyJhIjoxfQ==\<close>, the base64 of the JSON object with the key \<open>a\<close> bound to 1.

  The float operations of the three environments are the exact operations on the reals,
  and \<open>round2\<close> is the exact rounding to two decimals, ties to even. On the tokens whose
  entropy the examples evaluate every character frequency is a power of two, and the
  platform's floats give the same numbers, 0 and 5.
\<close>

definition round_half_even :: "real \<Rightarrow> int" where
  "round_half_even x =
     (let f = \<lfloor>x\<rfloor>; d = x - real_of_int f in
      if d < 1 / 2 then f else if d > 1 / 2 then f + 1 else if even f then f else f + 1)"

definition py_round2 :: "real \<Rightarrow> real" where
  "py_round2 x = real_of_int (round_half_even (x * 100)) / 100"

definition ex_env :: analyzer_env where
  "ex_env = \<lparr>b64decode = (\<lambda>s. None), json_loads = (\<lambda>b. None), DNS_AVAILABLE = False,
             resolve = (\<lambda>d t. Timeout),
             float_div = (\<lambda>a b. real a / real b), math_log = (\<lambda>x b. log b x),
             float_mul = (\<lambda>x y. x * y), float_sub = (\<lambda>x y. x - y), round2 = py_round2\<rparr>"

definition ex_dns_timeout_env :: analyzer_env where
  "ex_dns_timeout_env = ex_env\<lparr>DNS_AVAILABLE := True\<rparr>"

definition ex_json_bytes :: string where
  "ex_json_bytes = [CHR ''{'', CHR 0x22, CHR ''a'', CHR 0x22, CHR '':'', CHR ''1'', CHR ''}'']"

definition ex_json_env :: analyzer_env where
  "ex_json_env =
     ex_env\<lparr>b64decode := (\<lambda>s. if s = ''eyJhIjoxfQ=='' then Some ex_json_bytes else None),
            json_loads := (\<lambda>b. if b = ex_json_bytes then Some (PDict [(''a'', PInt 1)])
                                else None)\<rparr>"

text \<open>A leak as the detection stage stores it, before validation.\<close>

definition ex_leak :: finding where
  "ex_leak = \<lparr>url = ''http://t.example/'', source_file = ''http://t.example/app.js'',
     excerpt = ''var t = eyJhIjoxfQ=='', match = ''eyJhIjoxfQ=='', rule_id = ''token'',
     category = ''api_key'', secret = [], reuse_count = 0, validation = [], osint = None,
     risk = None\<rparr>"

text \<open>
  The OSINT datasets of the repository's test (\<open>MOCK_OSINT_DATA\<close>), the same with the
  admin paths \<open>admin\<close> and \<open>wp-admin\<close> only, and the three findings and the crawl context
  of \<open>test_correlator_logic\<close>.
\<close>

definition ex_osint_data :: osint_data where
  "ex_osint_data =
     \<lparr>sensitive_files = {''config.xml'', ''id_rsa'', ''.env''},
      disposable_domains = {''trashmail.com'', ''tempmail.org''},
      free_domains = {''gmail.com'', ''yahoo.com''},
      breached_org_domains = {''hacked-corp.com''},
      admin_paths = {''admin'', ''wp-admin'', ''dashboard''},
      cloud_fingerprints = [(''aws'', [''amazonaws'', ''cloudfront'']),
                            (''azure'', [''azure'', ''windows.net'']),
                            (''cloudflare'', [''cloudflare''])]\<rparr>"

definition ex_admin_data :: osint_data where
  "ex_admin_data = ex_osint_data\<lparr>admin_paths := {''admin'', ''wp-admin''}\<rparr>"

definition ex_f1 :: finding where
  "ex_f1 = \<lparr>url = ''http://target.com/.env'', source_file = ''http://target.com/.env'',
     excerpt = ''DB_PASSWORD=123'', match = [], rule_id = [], category = ''GENERIC'',
     secret = [], reuse_count = 0, validation = [], osint = None, risk = None\<rparr>"

definition ex_f2 :: finding where
  "ex_f2 = \<lparr>url = ''http://target.com/contact'', source_file = ''main.js'',
     excerpt = ''bob@trashmail.com'', match = [], rule_id = [], category = ''EMAIL'',
     secret = [], reuse_count = 0, validation = [], osint = None, risk = None\<rparr>"

definition ex_f3 :: finding where
  "ex_f3 = \<lparr>url = ''http://target.com/safe'', source_file = ''index.html'',
     excerpt = ''Nothing here'', match = [], rule_id = [], category = ''INFO'',
     secret = [], reuse_count = 0, validation = [], osint = None, risk = None\<rparr>"

definition ex_ctx :: crawl_context where
  "ex_ctx = \<lparr>headers = [(''Server'', ''cloudflare'')], urls = [], js_files = []\<rparr>"

section \<open>Vocabulary of the properties\<close>

text \<open>
  \<open>fused predict f f'\<close>: the assessment attached to \<open>f'\<close> is the fusion of the rule score
  of \<open>f\<close> with the classifier's score for \<open>f\<close>, within the bounds.
\<close>

definition fused :: "classifier \<Rightarrow> finding \<Rightarrow> finding \<Rightarrow> bool" where
  "fused predict f f' =
     (\<exists>rs sev facs r. calculate_base_score f = Inr (rs, sev, facs) \<and> risk f' = Some r
        \<and> score r = py_int (final_score rs (fst (predict f)))
        \<and> final_score rs (fst (predict f))
            = max (real_of_int rs) (min (real_of_int rs + 20) (fst (predict f)))
        \<and> real_of_int rs \<le> final_score rs (fst (predict f))
        \<and> final_score rs (fst (predict f)) - real_of_int rs \<le> 20
        \<and> rs \<le> score r \<and> score r - rs \<le> 20)"


text \<open>
  The labels a finding carries after correlation, and the exposure-surface labels: the
  ones of the sensitive-file, admin-path and public-JS checks.
\<close>

definition labels_of :: "finding \<Rightarrow> string set" where
  "labels_of f = (case osint f of None \<Rightarrow> {} | Some oc \<Rightarrow> set (labels oc))"

definition surface_labels :: "string set" where
  "surface_labels = {''KNOWN_SENSITIVE_FILE'', ''EXPOSED_ADMIN_PATH'', ''PUBLICLY_EXPOSED_ARTIFACT''}"

text \<open>The non-empty segments of a path between slashes, lower-cased.\<close>

definition path_segments :: "string \<Rightarrow> string set" where
  "path_segments path = {lower p | p. p \<in> set (split_on CHR ''/'' path) \<and> p \<noteq> []}"

section \<open>Evaluation and string lemmas\<close>

lemmas str_eval = lower_def lower_char_def upper_def upper_char_def ascii_uppercase_def
  ascii_lowercase_def latin1_uppercase_def latin1_lowercase_def startswith_def endswith_def
  count_char_def

lemma split_on_nonempty: "split_on c s \<noteq> []"
  by (induction s) (auto split: list.splits)

lemma length_split_on: "length (split_on c s) = count_char c s + 1"
  by (induction s) (auto simp: count_char_def split_on_nonempty split: list.splits)

lemma split_two:
  assumes "count_char c s = 1"
  shows "\<exists>a b. split_on c s = [a, b]"
proof -
  have "length (split_on c s) = 2" using assms by (simp add: length_split_on)
  then show ?thesis by (auto simp: length_Suc_conv numeral_2_eq_2)
qed

lemma contains_single: "contains [c] s = (c \<in> set s)"
  by (induction s) (auto simp: startswith_def)

lemma count_char_pos: "count_char c s > 0 \<Longrightarrow> c \<in> set s"
  by (induction s) (auto simp: count_char_def split: if_splits)

section \<open>Properties of the risk fusion\<close>

lemma final_score_bounds:
  "real_of_int rs \<le> final_score rs m \<and> final_score rs m \<le> real_of_int rs + 20"
  by (simp add: final_score_def)

lemma py_int_between:
  assumes "real_of_int a \<le> x" "x \<le> real_of_int b" "0 \<le> a"
  shows "a \<le> py_int x \<and> py_int x \<le> b"
  using assms by (auto simp: py_int_def le_floor_iff floor_le_iff)

lemma base_score_range:
  "calculate_base_score f = Inr (rs, sev, facs) \<Longrightarrow> 10 \<le> rs \<and> rs \<le> 100"
  by (auto simp: calculate_base_score_def Let_def split: sum.splits prod.splits)

lemma assess_finding_fused:
  assumes "assess_finding predict f = Inr f'"
  shows "fused predict f f'"
proof -
  from assms obtain rs sev facs where b: "calculate_base_score f = Inr (rs, sev, facs)"
    by (auto simp: assess_finding_def split: sum.splits)
  obtain m ms tf where p: "predict f = (m, ms, tf)" by (cases "predict f") auto
  from assms b p have r: "risk f' = Some \<lparr>score = py_int (final_score rs m),
      severity = severity_of_score (final_score rs m),
      factors = (if final_score rs m > real_of_int rs
                 then facs @ [''ML Analysis refined risk score (+''
                        @ str_of_int (py_int (final_score rs m - real_of_int rs)) @ '')'']
                 else facs),
      ml_analysis = Some \<lparr>predicted_severity = ms, confidence_score = py_int m,
                           model_used = ''RandomForestClassifier (Ensemble)'',
                           top_features = tf\<rparr>\<rparr>"
    by (auto simp: assess_finding_def Let_def)
  have fb: "real_of_int rs \<le> final_score rs m" "final_score rs m \<le> real_of_int (rs + 20)"
    using final_score_bounds[of rs m] by simp_all
  have "0 \<le> rs" using base_score_range[OF b] by simp
  from py_int_between[OF fb this]
  have "rs \<le> py_int (final_score rs m)" "py_int (final_score rs m) \<le> rs + 20"
    by simp_all
  with b p r fb show ?thesis
    unfolding fused_def by (auto simp: final_score_def)
qed

lemma ex_assess:
  "assess_risk ex_predict [ex_finding] = Inr [ex_finding\<lparr>risk := Some \<lparr>score = 27,
     severity = ''Low'',
     factors = [''High-Value Secret Type: JWT'', ''ML Analysis refined risk score (+12)''],
     ml_analysis = Some \<lparr>predicted_severity = ''Low'', confidence_score = 27,
       model_used = ''RandomForestClassifier (Ensemble)'', top_features = []\<rparr>\<rparr>\<rparr>]"
  by code_simp

lemma assess_risk_fused:
  assumes "assess_risk predict fs = Inr fs'"
  shows "length fs' = length fs \<and> (\<forall>i < length fs. fused predict (fs ! i) (fs' ! i))"
  using assms
proof (induction fs arbitrary: fs')
  case Nil
  then show ?case by simp
next
  case (Cons f fs)
  from Cons.prems obtain g gs where g: "assess_finding predict f = Inr g"
    and gs: "assess_risk predict fs = Inr gs" and e: "fs' = g # gs"
    by (auto split: sum.splits)
  from Cons.IH[OF gs]
  have ih: "length gs = length fs" "\<forall>i < length fs. fused predict (fs ! i) (gs ! i)"
    by simp_all
  show ?case
  proof (intro conjI allI impI)
    show "length fs' = length (f # fs)" using e ih by simp
  next
    fix i assume "i < length (f # fs)"
    then show "fused predict ((f # fs) ! i) (fs' ! i)"
      using assess_finding_fused[OF g] ih e by (cases i) auto
  qed
qed

lemma assess_finding_returns:
  assumes "validity_of (validation f) = Inr v"
  shows "\<exists>f'. assess_finding predict f = Inr f'"
  using assms
  by (simp add: assess_finding_def calculate_base_score_def Let_def split: prod.splits)

lemma assess_risk_returns:
  assumes "\<forall>f \<in> set fs. \<exists>v. validity_of (validation f) = Inr v"
  shows "\<exists>fs'. assess_risk predict fs = Inr fs'"
  using assms
proof (induction fs)
  case Nil
  then show ?case by simp
next
  case (Cons f fs)
  from Cons.prems obtain v where "validity_of (validation f) = Inr v" by auto
  from assess_finding_returns[OF this] obtain g where g: "assess_finding predict f = Inr g"
    by blast
  from Cons obtain gs where gs: "assess_risk predict fs = Inr gs" by auto
  show ?case using g gs by simp
qed

lemma ex_finding_validity: "validity_of (validation ex_finding) = Inr ''unknown''"
  by (simp add: validity_of_def dict_get_def ex_finding_def str_eval)

text \<open>
  C1. \<open>assess_risk\<close> returns for every list of findings whose stored validity, where
  there is one, is a string (\<open>calculate_base_score\<close> raises on any other value), and it
  returns one assessed finding for each finding of the list. For every one of them the
  final score is \<open>max(rule_score, min(rule_score + 20, ml_score))\<close>, with \<open>rule_score\<close> the
  score of \<open>calculate_base_score\<close> and \<open>ml_score\<close> the classifier's weighted score; so the
  final score is at least the rule score and exceeds it by at most 20. The same bounds
  hold for the integer \<open>int(final_score)\<close> that is stored as the finding's risk score.
\<close>

theorem assess_risk_fusion:
  assumes "\<forall>f \<in> set fs. \<exists>v. validity_of (validation f) = Inr v"
  shows "\<exists>fs'. assess_risk predict fs = Inr fs' \<and> length fs' = length fs
           \<and> (\<forall>i < length fs. fused predict (fs ! i) (fs' ! i))"
proof -
  from assess_risk_returns[OF assms] obtain fs' where r: "assess_risk predict fs = Inr fs'"
    by blast
  from assess_risk_fused[OF r] r show ?thesis by blast
qed

theorem assess_risk_fusion_witness:
  "validity_of (validation ex_finding) = Inr ''unknown''
   \<and> (\<exists>fs'. assess_risk ex_predict [ex_finding] = Inr fs' \<and> length fs' = 1
          \<and> fused ex_predict ex_finding (fs' ! 0)
          \<and> map_option score (risk (fs' ! 0)) = Some 27)"
  using assess_risk_fusion[of "[ex_finding]" ex_predict] ex_assess ex_finding_validity
  by simp

section \<open>Properties of the validation analyzer\<close>

text \<open>
  C10. For every declared secret type, the analyzer called on the empty string returns
  the label \<open>invalid\<close>, confidence 0 and the reason \<open>Empty secret\<close>, with empty metadata;
  the result does not depend on the libraries, so no type-specific validator has run.
\<close>

theorem analyze_empty:
  "analyze env [] secret_type =
     \<lparr>label = ''invalid'', confidence = 0, reason = ''Empty secret'', result_metadata = []\<rparr>"
  by (simp add: analyze_def result_def)

lemma validate_jwt_few_dots:
  assumes "count_char CHR ''.'' token \<le> 1"
  shows "validate_jwt env token =
           result ''invalid'' 100 ''Malformatted JWT: Incorrect number of segments'' []"
proof -
  have "length (split_on CHR ''.'' token) \<noteq> 3" using assms by (simp add: length_split_on)
  then show ?thesis
    by (auto simp: validate_jwt_def split: list.splits)
qed

text \<open>
  C6. A string with zero or one \<open>.\<close> that is validated as a JWT candidate is
  \<open>invalid\<close> with confidence 100: \<open>_validate_jwt\<close> answers so on every such string, and
  \<open>analyze\<close> answers so on every such candidate it hands to \<open>_validate_jwt\<close> for its
  declared type, which are the non-empty ones.
\<close>

theorem jwt_malformed:
  assumes "count_char CHR ''.'' s \<le> 1"
  shows "validate_jwt env s =
           result ''invalid'' 100 ''Malformatted JWT: Incorrect number of segments'' []
     \<and> (s \<noteq> [] \<and> contains ''jwt'' (lower ty) \<longrightarrow>
          label (analyze env s ty) = ''invalid'' \<and> confidence (analyze env s ty) = 100)"
  using validate_jwt_few_dots[OF assms] by (simp add: analyze_def result_def)

theorem jwt_malformed_witness:
  "label (analyze ex_env ''abc.def'' ''JWT'') = ''invalid''
   \<and> confidence (analyze ex_env ''abc.def'' ''JWT'') = 100"
  using jwt_malformed[of "''abc.def''" ex_env "''JWT''"]
  by (simp add: str_eval)

lemma email_without_resolver:
  assumes "\<not> DNS_AVAILABLE env" "count_char CHR ''@'' email = 1"
  shows "validate_email env email =
           result ''likely'' 50 ''Email structure valid (DNS check skipped)''
             [(''domain'', PStr (split_on CHR ''@'' email ! 1))]"
proof -
  from split_two[OF assms(2)] obtain a b where ab: "split_on CHR ''@'' email = [a, b]" by blast
  then show ?thesis using assms(1) by (simp add: validate_email_def)
qed

lemma email_lookup_failure:
  assumes "DNS_AVAILABLE env" "split_on CHR ''@'' email = [local_part, domain]"
    and "resolve env domain MX = Timeout \<or> resolve env domain MX = OtherFailure"
  shows "validate_email env email =
           result ''invalid'' 90 (''Domain '' @ domain @ '' has no MX or A records'')
             [(''domain'', PStr domain)]"
  using assms by (auto simp: validate_email_def)

lemma email_confidence_values:
  "confidence (validate_email env email) \<in> {100, 50, 90, 70}"
  by (simp add: validate_email_def result_def Let_def
        split: list.splits dns_outcome.splits)

lemma analyze_email_dispatch:
  assumes "email \<noteq> []" "\<not> contains ''jwt'' (lower ty)" "\<not> looks_like_jwt email"
    and "contains ''email'' (lower ty) \<or> contains ''@'' email" "email_shape email"
  shows "analyze env email ty = validate_email env email"
  using assms by (simp add: analyze_def Let_def)

text \<open>
  C7 does not hold on the code. When the resolver library is missing the analyzer does
  answer \<open>likely\<close> with confidence 50. When the library is there and the MX lookup times
  out or fails with an error other than \<open>NoAnswer\<close> and \<open>NXDOMAIN\<close>, the exception is
  caught by the inner \<open>except Exception: pass\<close>, and the email is reported \<open>invalid\<close> with
  confidence 90 and the reason that the domain has no MX or A records. The outer handler
  of the source, commented \<open>DNS timeout etc\<close>, which would answer \<open>likely\<close> with confidence
  40, is never reached: no email on no environment gets confidence 40.
\<close>

theorem dns_failure_reported_invalid:
  assumes "DNS_AVAILABLE env" "split_on CHR ''@'' email = [local_part, domain]"
    and "resolve env domain MX = Timeout \<or> resolve env domain MX = OtherFailure"
    and "\<not> contains ''jwt'' (lower ty)" "\<not> looks_like_jwt email"
    and "contains ''email'' (lower ty) \<or> contains ''@'' email" "email_shape email"
  shows "validate_email env email =
           result ''invalid'' 90 (''Domain '' @ domain @ '' has no MX or A records'')
             [(''domain'', PStr domain)]
     \<and> label (analyze env email ty) = ''invalid'' \<and> confidence (analyze env email ty) = 90
     \<and> label (analyze env email ty) \<noteq> ''likely''
     \<and> confidence (validate_email env' email') \<noteq> 40"
proof -
  have ne: "email \<noteq> []" using assms(2) by auto
  have v: "validate_email env email =
           result ''invalid'' 90 (''Domain '' @ domain @ '' has no MX or A records'')
             [(''domain'', PStr domain)]"
    using email_lookup_failure[OF assms(1,2,3)] .
  have a: "analyze env email ty = validate_email env email"
    using analyze_email_dispatch[OF ne assms(4,5,6,7)] .
  have c: "confidence (validate_email env' email') \<noteq> 40"
    using email_confidence_values[of env' email'] by auto
  show ?thesis using v a c by (simp add: result_def)
qed

theorem dns_failure_reported_invalid_witness:
  "DNS_AVAILABLE ex_dns_timeout_env
   \<and> resolve ex_dns_timeout_env ''tempmail.org'' MX = Timeout
   \<and> analyze ex_dns_timeout_env ''bob@tempmail.org'' ''email'' =
       \<lparr>label = ''invalid'', confidence = 90,
        reason = ''Domain tempmail.org has no MX or A records'',
        result_metadata = [(''domain'', PStr ''tempmail.org'')]\<rparr>"
  using dns_failure_reported_invalid[of ex_dns_timeout_env "''bob@tempmail.org''" "''bob''"
      "''tempmail.org''" "''email''"]
  by (simp add: analyze_def str_eval looks_like_jwt_def email_shape_def validate_email_def
        ex_dns_timeout_env_def ex_env_def result_def)



lemma analyze_ex_json:
  "label (analyze ex_json_env ''eyJhIjoxfQ=='' ''generic'') = ''valid''
   \<and> confidence (analyze ex_json_env ''eyJhIjoxfQ=='' ''generic'') = 80
   \<and> reason (analyze ex_json_env ''eyJhIjoxfQ=='' ''generic'') = ''Base64 decoded to valid JSON''"
  by (simp add: analyze_def str_eval looks_like_jwt_def validate_generic_token_def
       min_length_for_def MIN_LENGTHS_def base64_shaped_def b64_char_def ex_json_env_def
       ex_json_bytes_def result_def Let_def)










section \<open>Properties of the validity rule on pipeline findings\<close>

lemma validity_of_result_dict: "validity_of (result_dict r) = Inr ''unknown''"
  by (simp add: validity_of_def result_dict_def dict_get_def str_eval)

lemma validity_of_empty: "validity_of [] = Inr ''unknown''"
  by (simp add: validity_of_def dict_get_def str_eval)

lemma validate_leak_validity:
  "validity_of (validation (validate_leak env leak)) = Inr ''unknown''"
  by (simp add: validate_leak_def validity_of_result_dict)

lemma validate_leak_base_score:
  "calculate_base_score (validate_leak env leak)
     = calculate_base_score (leak\<lparr>validation := []\<rparr>)"
  using validate_leak_validity[of env leak] validity_of_empty
  by (simp add: calculate_base_score_def validate_leak_def osint_labels_def)

text \<open>
  C2 does not hold on the code. The validation stage stores the analyzer's result, a
  dictionary with the keys \<open>label\<close>, \<open>confidence\<close>, \<open>reason\<close> and \<open>metadata\<close>, and
  \<open>calculate_base_score\<close> reads the key \<open>validity\<close>: on every finding the stage has
  written, the validity read is the default \<open>unknown\<close> and the rule score is the score of
  the same finding with no validation at all. The leak \<open>ex_leak\<close> is labelled \<open>valid\<close>
  by the stage and scores 15, the category points alone.
\<close>

theorem pipeline_validity_bonus:
  "validity_of (validation (validate_leak env leak)) = Inr ''unknown''
   \<and> calculate_base_score (validate_leak env leak)
       = calculate_base_score (leak\<lparr>validation := []\<rparr>)
   \<and> dict_get (validation (validate_leak ex_json_env ex_leak)) ''label'' = Some (PStr ''valid'')
   \<and> calculate_base_score (validate_leak ex_json_env ex_leak)
       = Inr (15, ''Low'', [''High-Value Secret Type: API_KEY''])"
proof -
  have l: "dict_get (validation (validate_leak ex_json_env ex_leak)) ''label''
             = Some (PStr ''valid'')"
    using analyze_ex_json
    by (simp add: validate_leak_def result_dict_def dict_get_def ex_leak_def infer_type_def
          str_eval)
  have s: "calculate_base_score (ex_leak\<lparr>validation := []\<rparr>)
             = Inr (15, ''Low'', [''High-Value Secret Type: API_KEY''])"
    by (simp add: calculate_base_score_def validity_of_empty ex_leak_def str_eval
          validity_bonus_def category_bonus_def remove_char_def CRITICAL_cats_def HIGH_cats_def
          osint_bonus_def osint_labels_def severity_of_score_def)
  show ?thesis
    using l s validate_leak_validity[of env leak] validate_leak_base_score[of env leak]
      validate_leak_base_score[of ex_json_env ex_leak] by simp
qed

section \<open>Properties of the OSINT correlator\<close>

lemma set_dedupe_first: "set (dedupe_first xs) = set xs"
  by (simp add: dedupe_first_def)

lemma infra_label:
  "''INFRASTRUCTURE_FINGERPRINT_EXPOSED'' \<in> labels_of (correlate_finding d gp f) \<longleftrightarrow>
     gp \<noteq> [] \<and> ((check_sensitive_file d (url f) \<or> check_sensitive_file d (source_file f))
                \<or> (check_admin_path d (url f) \<or> check_admin_path d (source_file f))
                \<or> (source_file f \<noteq> [] \<and> endswith (source_file f) ''.js''))"
  unfolding correlate_finding_def labels_of_def Let_def
  by (auto simp: set_dedupe_first label_if_def unset_def)

lemma sensitive_label:
  "''KNOWN_SENSITIVE_FILE'' \<in> labels_of (correlate_finding d gp f) \<longleftrightarrow>
     check_sensitive_file d (url f) \<or> check_sensitive_file d (source_file f)"
  unfolding correlate_finding_def labels_of_def Let_def
  by (auto simp: set_dedupe_first label_if_def)

lemma admin_label:
  "''EXPOSED_ADMIN_PATH'' \<in> labels_of (correlate_finding d gp f) \<longleftrightarrow>
     check_admin_path d (url f) \<or> check_admin_path d (source_file f)"
  unfolding correlate_finding_def labels_of_def Let_def
  by (auto simp: set_dedupe_first label_if_def)

lemma public_label:
  "''PUBLICLY_EXPOSED_ARTIFACT'' \<in> labels_of (correlate_finding d gp f) \<longleftrightarrow>
     source_file f \<noteq> [] \<and> endswith (source_file f) ''.js''"
  unfolding correlate_finding_def labels_of_def Let_def
  by (auto simp: set_dedupe_first label_if_def)

lemma infra_iff_surface:
  "''INFRASTRUCTURE_FINGERPRINT_EXPOSED'' \<in> labels_of (correlate_finding d gp f) \<longleftrightarrow>
     gp \<noteq> [] \<and> labels_of (correlate_finding d gp f) \<inter> surface_labels \<noteq> {}"
  using infra_label[of d gp f] sensitive_label[of d gp f] admin_label[of d gp f]
    public_label[of d gp f]
  by (auto simp: surface_labels_def)

lemma ex_providers:
  "detect_cloud_provider ex_osint_data (headers ex_ctx) (urls ex_ctx) (js_files ex_ctx)
     = [''cloudflare'']"
  by (simp add: detect_cloud_provider_def ex_osint_data_def ex_ctx_def str_eval)

text \<open>
  C3. For every finding that \<open>correlate\<close> labels, \<open>INFRASTRUCTURE_FINGERPRINT_EXPOSED\<close> is
  among its labels exactly when the global provider set is non-empty and the finding
  carries one of the labels of the sensitive-file, admin-path and public-JS checks; so a
  finding without such a label never receives it, whatever the provider set.
\<close>

theorem infrastructure_label_gated:
  assumes "i < length findings"
  shows "let gp = detect_cloud_provider d (headers ctx) (urls ctx) (js_files ctx);
             ls = labels_of (correlate d findings ctx ! i)
         in (''INFRASTRUCTURE_FINGERPRINT_EXPOSED'' \<in> ls
               \<longleftrightarrow> gp \<noteq> [] \<and> ls \<inter> surface_labels \<noteq> {})
          \<and> (ls \<inter> surface_labels = {} \<longrightarrow> ''INFRASTRUCTURE_FINGERPRINT_EXPOSED'' \<notin> ls)"
proof -
  have ne: "findings \<noteq> []" using assms by auto
  have "correlate d findings ctx ! i
          = correlate_finding d
              (detect_cloud_provider d (headers ctx) (urls ctx) (js_files ctx)) (findings ! i)"
    using assms ne by (simp add: correlate_def Let_def)
  then show ?thesis
    using infra_iff_surface[of d "detect_cloud_provider d (headers ctx) (urls ctx) (js_files ctx)"
        "findings ! i"]
    by (simp add: Let_def)
qed

lemma ex_f1_sensitive: "check_sensitive_file ex_osint_data (url ex_f1)"
  by (simp add: ex_f1_def ex_osint_data_def check_sensitive_file_def str_eval)

lemma ex_f3_not_sensitive:
  "\<not> check_sensitive_file ex_osint_data (url ex_f3)"
  "\<not> check_sensitive_file ex_osint_data (source_file ex_f3)"
  by (simp_all add: ex_f3_def ex_osint_data_def check_sensitive_file_def str_eval)

lemma ex_f3_not_admin:
  "\<not> check_admin_path ex_osint_data (url ex_f3)"
  "\<not> check_admin_path ex_osint_data (source_file ex_f3)"
  by (simp_all add: ex_f3_def ex_osint_data_def check_admin_path_def strip_chars_def str_eval)

lemma ex_f3_not_js: "\<not> endswith (source_file ex_f3) ''.js''"
  by (simp add: ex_f3_def str_eval)

lemma ex_correlate:
  "correlate ex_osint_data [ex_f1, ex_f2, ex_f3] ex_ctx
     = map (correlate_finding ex_osint_data [''cloudflare'']) [ex_f1, ex_f2, ex_f3]"
  by (simp add: correlate_def ex_providers Let_def)

lemma ex_f1_surface:
  "labels_of (correlate_finding ex_osint_data [''cloudflare''] ex_f1) \<inter> surface_labels \<noteq> {}"
  using sensitive_label[of ex_osint_data "[''cloudflare'']" ex_f1] ex_f1_sensitive
  by (auto simp: surface_labels_def)

lemma ex_f3_surface:
  "labels_of (correlate_finding ex_osint_data [''cloudflare''] ex_f3) \<inter> surface_labels = {}"
  using sensitive_label[of ex_osint_data "[''cloudflare'']" ex_f3]
    admin_label[of ex_osint_data "[''cloudflare'']" ex_f3]
    public_label[of ex_osint_data "[''cloudflare'']" ex_f3]
    ex_f3_not_sensitive ex_f3_not_admin ex_f3_not_js
  by (auto simp: surface_labels_def)

theorem infrastructure_label_gated_witness:
  "''INFRASTRUCTURE_FINGERPRINT_EXPOSED''
      \<in> labels_of (correlate ex_osint_data [ex_f1, ex_f2, ex_f3] ex_ctx ! 0)
   \<and> ''INFRASTRUCTURE_FINGERPRINT_EXPOSED''
      \<notin> labels_of (correlate ex_osint_data [ex_f1, ex_f2, ex_f3] ex_ctx ! 2)"
  using infrastructure_label_gated[of 0 "[ex_f1, ex_f2, ex_f3]" ex_osint_data ex_ctx]
    infrastructure_label_gated[of 2 "[ex_f1, ex_f2, ex_f3]" ex_osint_data ex_ctx]
    ex_f1_surface ex_f3_surface
  by (simp add: Let_def ex_correlate ex_providers)

section \<open>Properties of the admin-path check\<close>

lemma check_admin_path_segments:
  "check_admin_path d path \<longleftrightarrow>
     path \<noteq> [] \<and> path_segments (strip_chars {CHR ''/''} path) \<inter> admin_paths d \<noteq> {}"
  by (auto simp: check_admin_path_def path_segments_def Let_def list_ex_iff)

text \<open>
  C5, as stated, fails: against the dataset of \<open>admin\<close> and \<open>wp-admin\<close> the path
  \<open>/sub/dashboard\<close> does not match, since neither of its segments is in the dataset.
\<close>

theorem dashboard_counterexample:
  "admin_paths ex_admin_data = {''admin'', ''wp-admin''}
   \<and> \<not> check_admin_path ex_admin_data ''/sub/dashboard''"
  by (simp add: ex_admin_data_def ex_osint_data_def check_admin_path_def strip_chars_def
        str_eval)

text \<open>
  C5, amended. The admin-path check matches full path segments only, never substrings:
  a path matches exactly when one of its non-empty segments, lower-cased, is in the
  dataset. Against the dataset of \<open>admin\<close> and \<open>wp-admin\<close>, \<open>/content/administration-guide\<close>
  does not match and \<open>/wp-admin\<close> does; \<open>/sub/dashboard\<close> matches against the dataset
  that also holds \<open>dashboard\<close>, the one of the repository's test.
\<close>

theorem admin_path_full_segments:
  "(check_admin_path d path \<longleftrightarrow>
      path \<noteq> [] \<and> path_segments (strip_chars {CHR ''/''} path) \<inter> admin_paths d \<noteq> {})
   \<and> \<not> check_admin_path ex_admin_data ''/content/administration-guide''
   \<and> check_admin_path ex_admin_data ''/wp-admin''
   \<and> check_admin_path ex_osint_data ''/sub/dashboard''
   \<and> \<not> check_admin_path ex_osint_data ''/content/administration-guide''"
proof -
  have "\<not> check_admin_path ex_admin_data ''/content/administration-guide''"
    by (simp add: ex_admin_data_def ex_osint_data_def check_admin_path_def strip_chars_def
          str_eval)
  moreover have "check_admin_path ex_admin_data ''/wp-admin''"
    by (simp add: ex_admin_data_def ex_osint_data_def check_admin_path_def strip_chars_def
          str_eval)
  moreover have "check_admin_path ex_osint_data ''/sub/dashboard''"
    by (simp add: ex_osint_data_def check_admin_path_def strip_chars_def str_eval)
  moreover have "\<not> check_admin_path ex_osint_data ''/content/administration-guide''"
    by (simp add: ex_osint_data_def check_admin_path_def strip_chars_def str_eval)
  ultimately show ?thesis using check_admin_path_segments[of d path] by simp
qed

theorem admin_path_full_segments_witness:
  "check_admin_path ex_osint_data ''/sub/dashboard''
   \<and> path_segments (strip_chars {CHR ''/''} ''/sub/dashboard'') \<inter> admin_paths ex_osint_data
       \<noteq> {}"
proof -
  have "check_admin_path ex_osint_data ''/sub/dashboard'' \<longleftrightarrow>
          ''/sub/dashboard'' \<noteq> []
          \<and> path_segments (strip_chars {CHR ''/''} ''/sub/dashboard'')
                \<inter> admin_paths ex_osint_data \<noteq> {}"
    and "check_admin_path ex_osint_data ''/sub/dashboard''"
    using admin_path_full_segments[of ex_osint_data "''/sub/dashboard''"] by blast+
  then show ?thesis by blast
qed

end
